theory Spec2Isabelle
  imports Main "HOL-Library.Signed_Division"
begin

section \<open>Python built-ins used by the generator\<close>

text \<open>
  The generator is Sub_IR_Protocol.py. Python's unbounded \<open>int\<close> is \<^typ>\<open>int\<close>, and
  \<open>//\<close> on it is floor division, which is \<open>div\<close> on \<^typ>\<open>int\<close>. A Python string is a
  \<^typ>\<open>string\<close>, one \<^typ>\<open>char\<close> per character; the built-ins below are written for ASCII
  text, which is what the prompts of the program are answered with. The interpreter's
  configurable limit on the number of digits of a decimal conversion is not modelled.
\<close>

datatype error = ValueError | KeyError | ZeroDivisionError

definition newline :: char where
  "newline = CHR 0x0A"

text \<open>\<open>sep.join(parts)\<close>.\<close>

fun py_join :: "string \<Rightarrow> string list \<Rightarrow> string" where
  "py_join sep [] = []"
| "py_join sep [x] = x"
| "py_join sep (x # y # ys) = x @ sep @ py_join sep (y # ys)"

text \<open>\<open>str(i)\<close> for an integer: decimal digits, most significant first, a minus sign in
  front of a negative number.\<close>

definition digit_char :: "int \<Rightarrow> char" where
  "digit_char d =
     (if d = 0 then CHR ''0'' else if d = 1 then CHR ''1'' else if d = 2 then CHR ''2''
      else if d = 3 then CHR ''3'' else if d = 4 then CHR ''4'' else if d = 5 then CHR ''5''
      else if d = 6 then CHR ''6'' else if d = 7 then CHR ''7'' else if d = 8 then CHR ''8''
      else CHR ''9'')"

text \<open>The digits of a number that is not negative, in base 2 or base 10.\<close>

function digits :: "int \<Rightarrow> int \<Rightarrow> string" where
  "digits b n =
     (if b < 2 \<or> n < b then [digit_char n] else digits b (n div b) @ [digit_char (n mod b)])"
  by pat_completeness auto
termination
  by (relation "measure (\<lambda>(b, n). nat n)") (auto simp: int_div_less_self)

declare digits.simps [simp del]

definition py_str :: "int \<Rightarrow> string" where
  "py_str i = (if i < 0 then CHR ''-'' # digits 10 (- i) else digits 10 i)"

text \<open>\<open>bin(i)\<close>: the prefix \<open>0b\<close> and the binary digits, a minus sign first for a negative
  number.\<close>

definition py_bin :: "int \<Rightarrow> string" where
  "py_bin i = (if i < 0 then ''-0b'' @ digits 2 (- i) else ''0b'' @ digits 2 i)"

text \<open>\<open>s.zfill(width)\<close>: zeros on the left up to the width, after a leading sign if there
  is one; a string that is long enough is returned as it is.\<close>

definition py_zfill :: "nat \<Rightarrow> string \<Rightarrow> string" where
  "py_zfill width s =
     (if width \<le> length s then s
      else (case s of
              [] \<Rightarrow> replicate width (CHR ''0'')
            | c # cs \<Rightarrow>
                if c = CHR ''+'' \<or> c = CHR ''-''
                then c # replicate (width - length s) (CHR ''0'') @ cs
                else replicate (width - length s) (CHR ''0'') @ s))"

text \<open>\<open>s.upper()\<close> and \<open>s.lower()\<close> on ASCII text.\<close>

definition upper_char :: "char \<Rightarrow> char" where
  "upper_char c =
     (if 97 \<le> (of_char c :: nat) \<and> (of_char c :: nat) \<le> 122 then char_of ((of_char c :: nat) - 32) else c)"

definition lower_char :: "char \<Rightarrow> char" where
  "lower_char c =
     (if 65 \<le> (of_char c :: nat) \<and> (of_char c :: nat) \<le> 90 then char_of ((of_char c :: nat) + 32) else c)"

definition py_upper :: "string \<Rightarrow> string" where
  "py_upper s = map upper_char s"

definition py_lower :: "string \<Rightarrow> string" where
  "py_lower s = map lower_char s"

text \<open>\<open>s.replace(old, new)\<close>: the occurrences of \<open>old\<close> are replaced from left to right,
  without overlap, in one pass; an empty \<open>old\<close> matches before every character and at the
  end.\<close>

function py_replace :: "string \<Rightarrow> string \<Rightarrow> string \<Rightarrow> string" where
  "py_replace old new [] = (if old = [] then new else [])"
| "py_replace old new (c # cs) =
     (if old = [] then new @ c # py_replace old new cs
      else if take (length old) (c # cs) = old
           then new @ py_replace old new (drop (length old) (c # cs))
           else c # py_replace old new cs)"
  by pat_completeness auto
termination
  by (relation "measure (\<lambda>(old, new, s). length s)") auto

text \<open>Whitespace: the characters \<open>str.split()\<close> and \<open>str.strip()\<close> treat as blank, and the
  ones the integer parser skips around a number.\<close>

definition py_isspace :: "char \<Rightarrow> bool" where
  "py_isspace c = ((of_char c :: nat) \<in> {9, 10, 11, 12, 13, 28, 29, 30, 31, 32, 133, 160})"

definition int_isspace :: "char \<Rightarrow> bool" where
  "int_isspace c = ((of_char c :: nat) \<in> {9, 10, 11, 12, 13, 32, 133, 160})"


text \<open>\<open>s.split()\<close>: the maximal runs of non-blank characters, in order. The first argument
  is the run being read.\<close>

fun split_runs :: "string \<Rightarrow> string \<Rightarrow> string list" where
  "split_runs cur [] = (if cur = [] then [] else [cur])"
| "split_runs cur (c # cs) =
     (if py_isspace c then (if cur = [] then split_runs [] cs else cur # split_runs [] cs)
      else split_runs (cur @ [c]) cs)"

definition py_split :: "string \<Rightarrow> string list" where
  "py_split s = split_runs [] s"

text \<open>
  \<open>int(s, base)\<close> for base 10 and base 16. The parser skips blanks, reads an optional sign
  and, in base 16, an optional \<open>0x\<close> or \<open>0X\<close> that one underscore may follow. Then come
  the digits, where single underscores may stand between two digits, then blanks up to the
  end. Anything else is a ValueError, here \<open>None\<close>.
\<close>

definition digit_value :: "char \<Rightarrow> nat option" where
  "digit_value c =
     (let n = (of_char c :: nat)
      in if 48 \<le> n \<and> n \<le> 57 then Some (n - 48)
         else if 97 \<le> n \<and> n \<le> 122 then Some (n - 87)
         else if 65 \<le> n \<and> n \<le> 90 then Some (n - 55)
         else None)"

definition is_digit :: "nat \<Rightarrow> char \<Rightarrow> bool" where
  "is_digit base c = (case digit_value c of None \<Rightarrow> False | Some d \<Rightarrow> d < base)"

definition digits_value :: "nat \<Rightarrow> string \<Rightarrow> int" where
  "digits_value base ds =
     foldl (\<lambda>acc c. acc * int base + (case digit_value c of None \<Rightarrow> 0 | Some d \<Rightarrow> int d)) 0 ds"

fun underscores_ok :: "string \<Rightarrow> bool" where
  "underscores_ok [] = True"
| "underscores_ok [c] = (c \<noteq> CHR ''_'')"
| "underscores_ok (c # d # cs) = (\<not> (c = CHR ''_'' \<and> d = CHR ''_'') \<and> underscores_ok (d # cs))"

definition skip_prefix :: "nat \<Rightarrow> string \<Rightarrow> string" where
  "skip_prefix base s =
     (if base = 16 \<and> (take 2 s = ''0x'' \<or> take 2 s = ''0X'')
      then (if take 1 (drop 2 s) = ''_'' then drop 3 s else drop 2 s)
      else s)"

definition py_int :: "nat \<Rightarrow> string \<Rightarrow> int option" where
  "py_int base s =
     (let s1 = dropWhile int_isspace s;
          negative = (take 1 s1 = ''-'');
          s2 = (if take 1 s1 = ''+'' \<or> take 1 s1 = ''-'' then drop 1 s1 else s1);
          s3 = skip_prefix base s2;
          body = takeWhile (\<lambda>c. is_digit base c \<or> c = CHR ''_'') s3;
          rest = dropWhile (\<lambda>c. is_digit base c \<or> c = CHR ''_'') s3;
          ds = filter (\<lambda>c. c \<noteq> CHR ''_'') body
      in if take 1 s3 = ''_'' \<or> \<not> underscores_ok body \<or> ds = [] \<or> dropWhile int_isspace rest \<noteq> []
         then None
         else Some ((if negative then - 1 else 1) * digits_value base ds))"

section \<open>Pattern encoders\<close>




text \<open>
  \<open>generate_nec_like\<close>, after its prompt has been read: \<open>data\<close> is the stripped answer.
  A leading lower-case \<open>0x\<close> is cut off, the rest goes through \<open>int(data, 16)\<close>, and
  \<open>bin(...)[2:].zfill(32)\<close> gives the characters the loop runs over: a \<open>1\<close> adds the long
  pair, every other character the short one. A ValueError of the parser is caught; the
  function then prints a message and returns the empty list.
\<close>

fun nec_loop :: "string \<Rightarrow> int list \<Rightarrow> int list" where
  "nec_loop [] pattern = pattern"
| "nec_loop (b # rest) pattern =
     nec_loop rest (if b = CHR ''1'' then pattern @ [560, - 1690] else pattern @ [560, - 560])"

definition generate_nec_like :: "string \<Rightarrow> int list" where
  "generate_nec_like data =
     (let pattern = [9000, - 4500];
          data = (if take 2 data = ''0x'' then drop 2 data else data)
      in case py_int 16 data of
           None \<Rightarrow> []
         | Some v \<Rightarrow>
             (let binary = py_zfill 32 (drop 2 (py_bin v))
              in nec_loop binary pattern @ [560]))"

section \<open>Protocol catalog\<close>

record subghz_info =
  bits :: int
  key_bytes :: nat
  needs_te :: bool
  default_te :: "int option"

definition subghz_protocols :: "(string \<times> subghz_info) list" where
  "subghz_protocols =
     [(''Princeton'', \<lparr>bits = 24, key_bytes = 8, needs_te = True, default_te = Some 400\<rparr>),
      (''Nice_Flo'', \<lparr>bits = 12, key_bytes = 3, needs_te = False, default_te = None\<rparr>),
      (''Came'', \<lparr>bits = 12, key_bytes = 3, needs_te = False, default_te = None\<rparr>),
      (''Linear'', \<lparr>bits = 10, key_bytes = 3, needs_te = False, default_te = None\<rparr>),
      (''Gate_TX'', \<lparr>bits = 24, key_bytes = 6, needs_te = False, default_te = None\<rparr>),
      (''Chamberlain'', \<lparr>bits = 32, key_bytes = 8, needs_te = False, default_te = None\<rparr>),
      (''DoorHan'', \<lparr>bits = 24, key_bytes = 6, needs_te = False, default_te = None\<rparr>),
      (''Somfy_Telis'', \<lparr>bits = 56, key_bytes = 14, needs_te = False, default_te = None\<rparr>),
      (''Star_Line'', \<lparr>bits = 64, key_bytes = 16, needs_te = False, default_te = None\<rparr>),
      (''Holtek'', \<lparr>bits = 40, key_bytes = 10, needs_te = False, default_te = None\<rparr>),
      (''RAW'', \<lparr>bits = 0, key_bytes = 0, needs_te = False, default_te = None\<rparr>)]"

section \<open>Key normalisation\<close>

text \<open>\<open>[key[i:i+2] for i in range(0, len(key), 2)]\<close>: the pieces of two characters, the
  last one shorter when the length is odd.\<close>

fun byte_pairs :: "string \<Rightarrow> string list" where
  "byte_pairs (a # b # cs) = [a, b] # byte_pairs cs"
| "byte_pairs [a] = [[a]]"
| "byte_pairs [] = []"

text \<open>
  The key that \<open>get_protocol_data\<close> returns: \<open>key\<close> is the stripped answer to its prompt
  and \<open>hex_chars\<close> is twice the protocol's \<open>key_bytes\<close>. When the answer is the word
  \<open>random\<close>, in any letter case, the key is made of \<open>random_hex\<close>, the text of \<open>hex_chars\<close>
  characters that \<open>random.choice\<close> draws from \<open>0123456789ABCDEF\<close>; the draw is an argument
  of the model. Any other answer is normalised, and an empty answer is left as it is.
  Nothing here raises.
\<close>

definition normalize_key :: "string \<Rightarrow> nat \<Rightarrow> string \<Rightarrow> string" where
  "normalize_key random_hex hex_chars key =
     (if py_lower key = ''random''
      then py_join '' '' (byte_pairs random_hex)
      else if key \<noteq> []
      then (let key = py_upper (py_replace '' '' [] (py_replace ''0x'' [] key));
                key = (if length key > hex_chars then take hex_chars key
                       else if length key < hex_chars then py_zfill hex_chars key
                       else key)
            in py_join '' '' (byte_pairs key))
      else key)"

section \<open>Sub-GHz file serialiser\<close>

text \<open>
  The keyword arguments of \<open>create_subghz_file\<close>. \<open>protocol\<close> and \<open>frequency\<close> are read
  with \<open>kwargs[...]\<close> on every path and are passed by every caller; the others are read
  with \<open>kwargs.get\<close>, except \<open>raw_data\<close>, whose absence is a KeyError in the RAW branch.
\<close>

record subghz_kwargs =
  kw_protocol :: string
  kw_frequency :: int
  kw_preset :: "string option"
  kw_raw_data :: "int list option"
  kw_bit_count :: "int option"
  kw_key :: "string option"
  kw_te :: "int option"
  kw_data :: "string option"
  kw_repeat :: "int option"

text \<open>Python's truth value of \<open>kwargs.get(k)\<close>: an absent key gives \<open>None\<close>, and zero and
  the empty string count as false.\<close>

definition truthy_int :: "int option \<Rightarrow> bool" where
  "truthy_int v = (case v of None \<Rightarrow> False | Some i \<Rightarrow> i \<noteq> 0)"

definition truthy_str :: "string option \<Rightarrow> bool" where
  "truthy_str v = (case v of None \<Rightarrow> False | Some t \<Rightarrow> t \<noteq> [])"

text \<open>The list \<open>lines\<close> that \<open>create_subghz_file\<close> builds.\<close>

definition subghz_lines :: "subghz_kwargs \<Rightarrow> error + string list" where
  "subghz_lines kw =
     (let lines = [''Filetype: Flipper SubGhz Key File'', ''Version: 1''];
          lines = lines @ [''Frequency: '' @ py_str (kw_frequency kw)];
          lines = lines @ [''Preset: '' @ (case kw_preset kw of None \<Rightarrow> ''FuriHalSubGhzPresetOok270Async''
                                             | Some p \<Rightarrow> p)];
          lines = lines @ [''Protocol: '' @ kw_protocol kw]
      in if kw_protocol kw = ''RAW''
         then (case kw_raw_data kw of
                 None \<Rightarrow> Inl KeyError
               | Some raw \<Rightarrow> Inr (lines @ [''RAW_Data: '' @ py_join '' '' (map py_str raw)]))
         else (let lines = (if truthy_int (kw_bit_count kw)
                            then lines @ [''Bit: '' @ py_str (the (kw_bit_count kw))] else lines);
                   lines = (if truthy_str (kw_key kw)
                            then lines @ [''Key: '' @ the (kw_key kw)] else lines);
                   lines = (if truthy_int (kw_te kw)
                            then lines @ [''TE: '' @ py_str (the (kw_te kw))] else lines);
                   lines = (if truthy_str (kw_data kw)
                            then lines @ [''Data: '' @ the (kw_data kw)] else lines);
                   repeat = (case kw_repeat kw of None \<Rightarrow> 1 | Some r \<Rightarrow> r);
                   lines = (if repeat > 1 then lines @ [''Repeat: '' @ py_str repeat] else lines)
               in Inr lines))"

text \<open>\<open>create_subghz_file\<close>: the result is \<open>content\<close>, the text written to the output
  file. Opening and writing the file are outside the model.\<close>

definition create_subghz_file :: "subghz_kwargs \<Rightarrow> error + string" where
  "create_subghz_file kw =
     (case subghz_lines kw of
        Inl e \<Rightarrow> Inl e
      | Inr lines \<Rightarrow> Inr (py_join [newline] lines @ [newline]))"

text \<open>
  The non-RAW branch of \<open>subghz_wizard\<close>: the dictionary \<open>params\<close> it builds from the
  selected protocol, the frequency, the key, data and timing element that
  \<open>get_protocol_data\<close> returned and the repeat count. The protocol is looked up with
  \<open>self.subghz_protocols[protocol]\<close>.
\<close>

definition wizard_params ::
  "string \<Rightarrow> int \<Rightarrow> string \<Rightarrow> string \<Rightarrow> int option \<Rightarrow> int \<Rightarrow> error + subghz_kwargs" where
  "wizard_params protocol frequency key data te repeat =
     (case map_of subghz_protocols protocol of
        None \<Rightarrow> Inl KeyError
      | Some protocol_info \<Rightarrow>
          Inr \<lparr>kw_protocol = protocol, kw_frequency = frequency, kw_preset = None,
               kw_raw_data = None, kw_bit_count = Some (bits protocol_info),
               kw_key = Some key,
               kw_te = (if needs_te protocol_info \<and> truthy_int te then te else None),
               kw_data = (if data \<noteq> [] then Some data else None),
               kw_repeat = Some repeat\<rparr>)"

text \<open>
  \<open>subghz_wizard\<close>, given what its helpers returned: \<open>select_protocol\<close> and
  \<open>select_frequency\<close> return \<open>None\<close> when the operator quits, and the wizard then returns
  without a file (\<open>None\<close> here), as it does for an empty name or the frequency 0, which
  are false as well. The RAW branch passes the raw data on, and gives up when there is
  none; the other branch passes \<open>params\<close>. The result is the keyword arguments that
  \<open>create_subghz_file\<close> is called with.
\<close>

definition subghz_wizard ::
  "string option \<Rightarrow> int option \<Rightarrow> int list option \<Rightarrow> string \<Rightarrow> string \<Rightarrow> int option \<Rightarrow> int
     \<Rightarrow> error + subghz_kwargs option" where
  "subghz_wizard protocol frequency raw_data key data te repeat =
     (if \<not> truthy_str protocol then Inr None
      else if \<not> truthy_int frequency then Inr None
      else if the protocol = ''RAW''
      then (if raw_data = None \<or> raw_data = Some [] then Inr None
            else Inr (Some \<lparr>kw_protocol = ''RAW'', kw_frequency = the frequency, kw_preset = None,
                            kw_raw_data = raw_data, kw_bit_count = None, kw_key = None,
                            kw_te = None, kw_data = None, kw_repeat = None\<rparr>))
      else (case wizard_params (the protocol) (the frequency) key data te repeat of
              Inl e \<Rightarrow> Inl e
            | Inr params \<Rightarrow> Inr (Some params)))"

text \<open>The name in front of the colon of a line, and the names of all lines.\<close>

definition line_tags :: "string list \<Rightarrow> string list" where
  "line_tags ls = map (takeWhile (\<lambda>c. c \<noteq> CHR '':'')) ls"

section \<open>Timing analyser and loader\<close>

text \<open>\<open>[int(x) for x in text.split()]\<close>: \<open>None\<close> when a token is not an integer.\<close>

fun parse_all :: "string list \<Rightarrow> int list option" where
  "parse_all [] = Some []"
| "parse_all (x # xs) =
     (case py_int 10 x of
        None \<Rightarrow> None
      | Some i \<Rightarrow> (case parse_all xs of None \<Rightarrow> None | Some is \<Rightarrow> Some (i # is)))"

definition parse_ints :: "string \<Rightarrow> int list option" where
  "parse_ints text = parse_all (py_split text)"


text \<open>The value of a RAW_Data or data line: \<open>' '.join(map(str, raw_data))\<close>.\<close>

definition render_timing :: "int list \<Rightarrow> string" where
  "render_timing raw_data = py_join '' '' (map py_str raw_data)"

text \<open>\<open>min\<close> and \<open>max\<close> raise a ValueError on an empty list, \<open>//\<close> a ZeroDivisionError on a
  zero divisor.\<close>

definition py_min :: "int list \<Rightarrow> error + int" where
  "py_min xs = (case xs of [] \<Rightarrow> Inl ValueError | y # ys \<Rightarrow> Inr (fold min ys y))"

definition py_max :: "int list \<Rightarrow> error + int" where
  "py_max xs = (case xs of [] \<Rightarrow> Inl ValueError | y # ys \<Rightarrow> Inr (fold max ys y))"

definition py_floordiv :: "int \<Rightarrow> int \<Rightarrow> error + int" where
  "py_floordiv a b = (if b = 0 then Inl ZeroDivisionError else Inr (a div b))"

text \<open>The three numbers of an ON or OFF line: minimum, maximum, average.\<close>

definition min_max_avg :: "int list \<Rightarrow> error + (int \<times> int \<times> int)" where
  "min_max_avg vals =
     (case py_min vals of
        Inl e \<Rightarrow> Inl e
      | Inr lo \<Rightarrow>
          (case py_max vals of
             Inl e \<Rightarrow> Inl e
           | Inr hi \<Rightarrow>
               (case py_floordiv (sum_list vals) (int (length vals)) of
                  Inl e \<Rightarrow> Inl e
                | Inr avg \<Rightarrow> Inr (lo, hi, avg))))"

text \<open>What \<open>analyze_timing\<close> prints: the three counts, and the ON and OFF lines when
  they are printed.\<close>

record timing_report =
  total_values :: nat
  positive_values :: nat
  negative_values :: nat
  on_times :: "(int \<times> int \<times> int) option"
  off_times :: "(int \<times> int \<times> int) option"

datatype analysis = Report timing_report | Invalid_timing_data

text \<open>The analysis of a parsed list, as the body of the \<open>try\<close> block computes it.\<close>

definition analyze_values :: "int list \<Rightarrow> error + timing_report" where
  "analyze_values timing =
     (let positive_vals = filter (\<lambda>x. x > 0) timing;
          negative_vals = map abs (filter (\<lambda>x. x < 0) timing)
      in case (if positive_vals \<noteq> [] then map_sum id Some (min_max_avg positive_vals) else Inr None) of
           Inl e \<Rightarrow> Inl e
         | Inr on \<Rightarrow>
             (case (if negative_vals \<noteq> [] then map_sum id Some (min_max_avg negative_vals) else Inr None) of
                Inl e \<Rightarrow> Inl e
              | Inr off \<Rightarrow>
                  Inr \<lparr>total_values = length timing,
                       positive_values = length (filter (\<lambda>x. x > 0) timing),
                       negative_values = length (filter (\<lambda>x. x < 0) timing),
                       on_times = on, off_times = off\<rparr>))"

text \<open>\<open>analyze_timing\<close> on the stripped answer to its prompt. The \<open>except ValueError\<close> turns
  every ValueError of the block into the message \<open>Invalid timing data\<close>; any other error
  leaves the function.\<close>

definition analyze_timing :: "string \<Rightarrow> error + analysis" where
  "analyze_timing timing_str =
     (case parse_ints timing_str of
        None \<Rightarrow> Inr Invalid_timing_data
      | Some timing \<Rightarrow>
          (case analyze_values timing of
             Inl ValueError \<Rightarrow> Inr Invalid_timing_data
           | Inl e \<Rightarrow> Inl e
           | Inr r \<Rightarrow> Inr (Report r)))"

text \<open>The names of the five lines every file starts with, and the number of lines of a
  text, each ended by a newline.\<close>

definition header_tags :: "string list" where
  "header_tags = [''Filetype'', ''Version'', ''Frequency'', ''Preset'', ''Protocol'']"

definition count_lines :: "string \<Rightarrow> nat" where
  "count_lines content = length (filter (\<lambda>c. c = newline) content)"

text \<open>The binary expansion of a number in a given width, most significant bit first.\<close>

definition msb_first_bits :: "nat \<Rightarrow> int \<Rightarrow> bool list" where
  "msb_first_bits width v = map (\<lambda>i. (v div 2 ^ i) mod 2 = 1) (rev [0..<width])"

section \<open>The Manchester encoder\<close>







section \<open>The Sub-GHz serialiser\<close>

lemma raw_tags:
  "kw_protocol kw = ''RAW'' \<Longrightarrow> kw_raw_data kw = Some raw \<Longrightarrow>
   \<exists>ls. subghz_lines kw = Inr ls \<and> ls \<noteq> [] \<and> line_tags ls = header_tags @ [''RAW_Data'']"
  by (simp add: subghz_lines_def line_tags_def header_tags_def)

lemma structured_tags:
  "kw_protocol kw \<noteq> ''RAW'' \<Longrightarrow>
   \<exists>ls. subghz_lines kw = Inr ls \<and> ls \<noteq> [] \<and> line_tags ls = header_tags
      @ (if truthy_int (kw_bit_count kw) then [''Bit''] else [])
      @ (if truthy_str (kw_key kw) then [''Key''] else [])
      @ (if truthy_int (kw_te kw) then [''TE''] else [])
      @ (if truthy_str (kw_data kw) then [''Data''] else [])
      @ (if (case kw_repeat kw of None \<Rightarrow> 1 | Some r \<Rightarrow> r) > 1 then [''Repeat''] else [])"
  by (simp add: subghz_lines_def line_tags_def header_tags_def Let_def)

lemma join_terminated: "ls \<noteq> [] \<Longrightarrow> py_join sep ls @ sep = concat (map (\<lambda>l. l @ sep) ls)"
  by (induction sep ls rule: py_join.induct) simp_all

lemma content_of_lines:
  "subghz_lines kw = Inr ls \<Longrightarrow> ls \<noteq> [] \<Longrightarrow>
   create_subghz_file kw = Inr (concat (map (\<lambda>l. l @ [newline]) ls))"
  by (simp add: create_subghz_file_def join_terminated)

lemma last_terminated: "ls \<noteq> [] \<Longrightarrow> last (concat (map (\<lambda>l. l @ [c]) ls)) = c"
  by (induction ls) auto

text \<open>
  C7: the lines of a Sub-GHz file are the five header lines followed either by the
  RAW_Data line alone or by those of the Bit, Key, TE, Data and Repeat lines whose values
  are present, in this order, never by both; which of the two depends only on whether the
  protocol name is \<open>RAW\<close>. Every line of the content, the last one too, ends with a
  newline. A RAW call must pass its raw data; every other call returns a content.
\<close>

theorem subghz_branch_exclusive:
  assumes "kw_protocol kw = ''RAW'' \<longrightarrow> kw_raw_data kw \<noteq> None"
  shows "\<exists>ls. subghz_lines kw = Inr ls
     \<and> create_subghz_file kw = Inr (concat (map (\<lambda>l. l @ [newline]) ls))
     \<and> concat (map (\<lambda>l. l @ [newline]) ls) \<noteq> []
     \<and> last (concat (map (\<lambda>l. l @ [newline]) ls)) = newline
     \<and> (kw_protocol kw = ''RAW'' \<longrightarrow> line_tags ls = header_tags @ [''RAW_Data''])
     \<and> (kw_protocol kw \<noteq> ''RAW'' \<longrightarrow>
          line_tags ls = header_tags
            @ (if truthy_int (kw_bit_count kw) then [''Bit''] else [])
            @ (if truthy_str (kw_key kw) then [''Key''] else [])
            @ (if truthy_int (kw_te kw) then [''TE''] else [])
            @ (if truthy_str (kw_data kw) then [''Data''] else [])
            @ (if (case kw_repeat kw of None \<Rightarrow> 1 | Some r \<Rightarrow> r) > 1 then [''Repeat''] else []))"
proof (cases "kw_protocol kw = ''RAW''")
  case True
  with assms obtain raw where "kw_raw_data kw = Some raw"
    by auto
  with True obtain ls where ls: "subghz_lines kw = Inr ls" "ls \<noteq> []"
      "line_tags ls = header_tags @ [''RAW_Data'']"
    using raw_tags by blast
  have "concat (map (\<lambda>l. l @ [newline]) ls) \<noteq> []"
    using ls(2) by (cases ls) simp_all
  moreover note content_of_lines [OF ls(1) ls(2)] last_terminated [OF ls(2), of newline]
  ultimately show ?thesis
    using ls True by (intro exI [of _ ls]) simp
next
  case False
  then obtain ls where ls: "subghz_lines kw = Inr ls" "ls \<noteq> []"
      "line_tags ls = header_tags
            @ (if truthy_int (kw_bit_count kw) then [''Bit''] else [])
            @ (if truthy_str (kw_key kw) then [''Key''] else [])
            @ (if truthy_int (kw_te kw) then [''TE''] else [])
            @ (if truthy_str (kw_data kw) then [''Data''] else [])
            @ (if (case kw_repeat kw of None \<Rightarrow> 1 | Some r \<Rightarrow> r) > 1 then [''Repeat''] else [])"
    using structured_tags by blast
  have "concat (map (\<lambda>l. l @ [newline]) ls) \<noteq> []"
    using ls(2) by (cases ls) simp_all
  moreover note content_of_lines [OF ls(1) ls(2)] last_terminated [OF ls(2), of newline]
  ultimately show ?thesis
    using ls False by (intro exI [of _ ls]) simp
qed

theorem subghz_branch_exclusive_witness:
  "(\<exists>ls. create_subghz_file \<lparr>kw_protocol = ''RAW'', kw_frequency = 315000000, kw_preset = None,
        kw_raw_data = Some [500, - 500, 1000, - 500], kw_bit_count = None, kw_key = None,
        kw_te = None, kw_data = None, kw_repeat = None\<rparr> = Inr (concat (map (\<lambda>l. l @ [newline]) ls))
      \<and> line_tags ls = header_tags @ [''RAW_Data''])
   \<and> (\<exists>ls. create_subghz_file \<lparr>kw_protocol = ''Princeton'', kw_frequency = 433920000, kw_preset = None,
        kw_raw_data = None, kw_bit_count = Some 24, kw_key = Some ''00 00 00 00 00 95 D5 D4'',
        kw_te = Some 400, kw_data = None, kw_repeat = None\<rparr> = Inr (concat (map (\<lambda>l. l @ [newline]) ls))
      \<and> line_tags ls = header_tags @ [''Bit'', ''Key'', ''TE''])"
proof -
  let ?raw = "\<lparr>kw_protocol = ''RAW'', kw_frequency = 315000000, kw_preset = None,
        kw_raw_data = Some [500, - 500, 1000, - 500], kw_bit_count = None, kw_key = None,
        kw_te = None, kw_data = None, kw_repeat = None\<rparr>"
  let ?pr = "\<lparr>kw_protocol = ''Princeton'', kw_frequency = 433920000, kw_preset = None,
        kw_raw_data = None, kw_bit_count = Some 24, kw_key = Some ''00 00 00 00 00 95 D5 D4'',
        kw_te = Some 400, kw_data = None, kw_repeat = None\<rparr>"
  have "kw_protocol ?raw = ''RAW'' \<longrightarrow> kw_raw_data ?raw \<noteq> None"
    by simp
  from subghz_branch_exclusive [OF this] have a: "\<exists>ls. create_subghz_file ?raw = Inr (concat (map (\<lambda>l. l @ [newline]) ls))
      \<and> line_tags ls = header_tags @ [''RAW_Data'']"
    by (elim exE conjE, intro exI conjI) simp_all
  have "kw_protocol ?pr = ''RAW'' \<longrightarrow> kw_raw_data ?pr \<noteq> None"
    by simp
  from subghz_branch_exclusive [OF this] have b: "\<exists>ls. create_subghz_file ?pr = Inr (concat (map (\<lambda>l. l @ [newline]) ls))
      \<and> line_tags ls = header_tags @ [''Bit'', ''Key'', ''TE'']"
    by (elim exE conjE, intro exI conjI) (simp_all add: truthy_int_def truthy_str_def)
  from a b show ?thesis
    by blast
qed


section \<open>The Holtek sample\<close>

text \<open>
  C1, as the claim states it, fails: the Holtek record gives seven lines, not six. Five
  header lines are followed by the Bit line and the Key line.
\<close>

theorem holtek_six_lines_counterexample:
  "map_sum id length (subghz_lines \<lparr>kw_protocol = ''Holtek'', kw_frequency = 418000000,
       kw_preset = None, kw_raw_data = None, kw_bit_count = Some 40,
       kw_key = Some (normalize_key ''0123456789ABCDEF0123'' (10 * 2) ''52AAAABBCCDDEEFF''), kw_te = None,
       kw_data = None, kw_repeat = None\<rparr>) = Inr 7
   \<and> map_sum id count_lines (create_subghz_file \<lparr>kw_protocol = ''Holtek'', kw_frequency = 418000000,
       kw_preset = None, kw_raw_data = None, kw_bit_count = Some 40,
       kw_key = Some (normalize_key ''0123456789ABCDEF0123'' (10 * 2) ''52AAAABBCCDDEEFF''), kw_te = None,
       kw_data = None, kw_repeat = None\<rparr>) \<noteq> Inr 6"
  by code_simp

text \<open>
  C1, amended: the Holtek record with frequency 418000000, bit count 40 and the key
  normalised from \<open>52AAAABBCCDDEEFF\<close> to ten bytes is written as exactly seven lines,
  none of them a RAW_Data line or a TE line.
\<close>

theorem holtek_seven_lines:
  "subghz_lines \<lparr>kw_protocol = ''Holtek'', kw_frequency = 418000000,
       kw_preset = None, kw_raw_data = None, kw_bit_count = Some 40,
       kw_key = Some (normalize_key random_hex (10 * 2) ''52AAAABBCCDDEEFF''), kw_te = None,
       kw_data = None, kw_repeat = None\<rparr>
     = Inr [''Filetype: Flipper SubGhz Key File'', ''Version: 1'', ''Frequency: 418000000'',
            ''Preset: FuriHalSubGhzPresetOok270Async'', ''Protocol: Holtek'', ''Bit: 40'',
            ''Key: 00 00 52 AA AA BB CC DD EE FF'']
   \<and> create_subghz_file \<lparr>kw_protocol = ''Holtek'', kw_frequency = 418000000,
       kw_preset = None, kw_raw_data = None, kw_bit_count = Some 40,
       kw_key = Some (normalize_key random_hex (10 * 2) ''52AAAABBCCDDEEFF''), kw_te = None,
       kw_data = None, kw_repeat = None\<rparr>
     = Inr (concat (map (\<lambda>l. l @ [newline])
         [''Filetype: Flipper SubGhz Key File'', ''Version: 1'', ''Frequency: 418000000'',
          ''Preset: FuriHalSubGhzPresetOok270Async'', ''Protocol: Holtek'', ''Bit: 40'',
          ''Key: 00 00 52 AA AA BB CC DD EE FF'']))
   \<and> map_sum id count_lines (create_subghz_file \<lparr>kw_protocol = ''Holtek'', kw_frequency = 418000000,
       kw_preset = None, kw_raw_data = None, kw_bit_count = Some 40,
       kw_key = Some (normalize_key random_hex (10 * 2) ''52AAAABBCCDDEEFF''), kw_te = None,
       kw_data = None, kw_repeat = None\<rparr>) = Inr 7
   \<and> ''RAW_Data'' \<notin> set (line_tags
         [''Filetype: Flipper SubGhz Key File'', ''Version: 1'', ''Frequency: 418000000'',
          ''Preset: FuriHalSubGhzPresetOok270Async'', ''Protocol: Holtek'', ''Bit: 40'',
          ''Key: 00 00 52 AA AA BB CC DD EE FF''])
   \<and> ''TE'' \<notin> set (line_tags
         [''Filetype: Flipper SubGhz Key File'', ''Version: 1'', ''Frequency: 418000000'',
          ''Preset: FuriHalSubGhzPresetOok270Async'', ''Protocol: Holtek'', ''Bit: 40'',
          ''Key: 00 00 52 AA AA BB CC DD EE FF''])"
  by code_simp

section \<open>The timing element line\<close>

lemma wizard_raw:
  "subghz_wizard (Some ''RAW'') frequency raw_data key data te repeat = Inr (Some params) \<Longrightarrow>
   kw_protocol params = ''RAW'' \<and> kw_raw_data params \<noteq> None"
  by (auto simp: subghz_wizard_def split: if_splits)

lemma wizard_named:
  "subghz_wizard protocol frequency raw_data key data te repeat = Inr (Some params) \<Longrightarrow>
   \<exists>p f. protocol = Some p \<and> p \<noteq> [] \<and> frequency = Some f \<and> f \<noteq> 0"
  by (auto simp: subghz_wizard_def truthy_str_def truthy_int_def split: if_splits option.splits)

lemma wizard_structured:
  assumes "protocol \<noteq> ''RAW''"
    and "subghz_wizard (Some protocol) frequency raw_data key data te repeat = Inr (Some params)"
  shows "\<exists>info. map_of subghz_protocols protocol = Some info \<and> kw_protocol params = protocol
     \<and> kw_te params = (if needs_te info \<and> truthy_int te then te else None)
     \<and> kw_key params = Some key"
proof -
  from assms(2) obtain f where f: "frequency = Some f" "f \<noteq> 0" and p: "protocol \<noteq> []"
    using wizard_named by blast
  from f p have go: "truthy_str (Some protocol)" "truthy_int frequency"
    by (simp_all add: truthy_str_def truthy_int_def)
  from assms(2) have "(case wizard_params protocol f key data te repeat of
              Inl e \<Rightarrow> Inl e
            | Inr params \<Rightarrow> Inr (Some params)) = Inr (Some params)"
    unfolding subghz_wizard_def using go assms(1) f by simp
  then have w: "wizard_params protocol f key data te repeat = Inr params"
    by (cases "wizard_params protocol f key data te repeat") simp_all
  show ?thesis
  proof (cases "map_of subghz_protocols protocol")
    case None
    with w show ?thesis
      by (simp add: wizard_params_def)
  next
    case (Some info)
    with w have "params = \<lparr>kw_protocol = protocol, kw_frequency = f, kw_preset = None,
               kw_raw_data = None, kw_bit_count = Some (bits info),
               kw_key = Some key,
               kw_te = (if needs_te info \<and> truthy_int te then te else None),
               kw_data = (if data \<noteq> [] then Some data else None),
               kw_repeat = Some repeat\<rparr>"
      by (simp add: wizard_params_def)
    with Some show ?thesis
      by simp
  qed
qed

lemma raw_no_te:
  "kw_protocol kw = ''RAW'' \<Longrightarrow> subghz_lines kw = Inr ls \<Longrightarrow> ''TE'' \<notin> set (line_tags ls)"
  by (auto simp: subghz_lines_def line_tags_def split: option.splits)

lemma structured_te:
  "kw_protocol kw \<noteq> ''RAW'' \<Longrightarrow> subghz_lines kw = Inr ls \<Longrightarrow>
   (''TE'' \<in> set (line_tags ls)) = truthy_int (kw_te kw)"
  using structured_tags [of kw] by (auto simp: header_tags_def)

lemma serializer_te:
  "subghz_lines kw = Inr ls \<Longrightarrow>
   (''TE'' \<in> set (line_tags ls)) = (kw_protocol kw \<noteq> ''RAW'' \<and> truthy_int (kw_te kw))"
  using raw_no_te [of kw ls] structured_te [of kw ls] by blast

lemma wizard_te:
  assumes "subghz_wizard protocol frequency raw_data key data te repeat = Inr (Some params)"
    and "subghz_lines params = Inr ls"
  shows "(''TE'' \<in> set (line_tags ls)) =
     (protocol \<noteq> Some ''RAW''
      \<and> (case protocol of
           None \<Rightarrow> False
         | Some p \<Rightarrow> (case map_of subghz_protocols p of None \<Rightarrow> False | Some info \<Rightarrow> needs_te info))
      \<and> (case te of None \<Rightarrow> False | Some t \<Rightarrow> t \<noteq> 0))"
proof -
  from assms(1) obtain p where p: "protocol = Some p"
    using wizard_named by blast
  show ?thesis
  proof (cases "p = ''RAW''")
    case True
    with assms(1) p have "kw_protocol params = ''RAW''"
      using wizard_raw by blast
    with assms(2) True p show ?thesis
      using raw_no_te by auto
  next
    case False
    with assms(1) p obtain info where info: "map_of subghz_protocols p = Some info"
        "kw_protocol params = p"
        "kw_te params = (if needs_te info \<and> truthy_int te then te else None)"
      using wizard_structured by blast
    from False info(2) assms(2) have "(''TE'' \<in> set (line_tags ls)) = truthy_int (kw_te params)"
      using structured_te by blast
    with False info p show ?thesis
      by (simp add: truthy_int_def)
  qed
qed

text \<open>
  C6, as the claim states it, fails: \<open>create_subghz_file\<close> does not look at the catalog.
  Holtek needs no timing element, and the record for Holtek with the timing element 400
  is written with the line \<open>TE: 400\<close>.
\<close>

theorem te_line_counterexample:
  "map_option needs_te (map_of subghz_protocols ''Holtek'') = Some False
   \<and> subghz_lines \<lparr>kw_protocol = ''Holtek'', kw_frequency = 418000000, kw_preset = None,
          kw_raw_data = None, kw_bit_count = Some 40,
          kw_key = Some ''00 00 52 AA AA BB CC DD EE FF'', kw_te = Some 400, kw_data = None,
          kw_repeat = None\<rparr>
     = Inr [''Filetype: Flipper SubGhz Key File'', ''Version: 1'', ''Frequency: 418000000'',
            ''Preset: FuriHalSubGhzPresetOok270Async'', ''Protocol: Holtek'', ''Bit: 40'',
            ''Key: 00 00 52 AA AA BB CC DD EE FF'', ''TE: 400'']
   \<and> ''TE'' \<in> set (line_tags
           [''Filetype: Flipper SubGhz Key File'', ''Version: 1'', ''Frequency: 418000000'',
            ''Preset: FuriHalSubGhzPresetOok270Async'', ''Protocol: Holtek'', ''Bit: 40'',
            ''Key: 00 00 52 AA AA BB CC DD EE FF'', ''TE: 400''])"
  by code_simp

text \<open>
  C6, amended: the serialiser writes a TE line exactly when the protocol is not \<open>RAW\<close>
  and a timing element other than zero was passed to it; it does not look at the catalog.
  The catalog is checked by the wizard when it builds \<open>params\<close>: in a file the wizard
  writes there is a TE line exactly when the protocol is not \<open>RAW\<close>, its catalog entry
  needs a timing element and a timing element other than zero was given. So through the
  wizard a protocol that needs none, such as Holtek, gets no TE line even when a value
  is supplied.
\<close>

theorem te_line_gated:
  "(\<forall>ls. subghz_lines kw = Inr ls \<longrightarrow>
      (''TE'' \<in> set (line_tags ls)) =
        (kw_protocol kw \<noteq> ''RAW'' \<and> (case kw_te kw of None \<Rightarrow> False | Some t \<Rightarrow> t \<noteq> 0)))
   \<and> (\<forall>params ls.
        subghz_wizard protocol frequency raw_data key data te repeat = Inr (Some params) \<longrightarrow>
        subghz_lines params = Inr ls \<longrightarrow>
        (''TE'' \<in> set (line_tags ls)) =
          (protocol \<noteq> Some ''RAW''
           \<and> (case protocol of
                None \<Rightarrow> False
              | Some p \<Rightarrow> (case map_of subghz_protocols p of None \<Rightarrow> False | Some info \<Rightarrow> needs_te info))
           \<and> (case te of None \<Rightarrow> False | Some t \<Rightarrow> t \<noteq> 0)))"
proof (intro conjI allI impI)
  fix ls
  assume "subghz_lines kw = Inr ls"
  then show "(''TE'' \<in> set (line_tags ls)) =
        (kw_protocol kw \<noteq> ''RAW'' \<and> (case kw_te kw of None \<Rightarrow> False | Some t \<Rightarrow> t \<noteq> 0))"
    using serializer_te [of kw ls] by (simp add: truthy_int_def)
next
  fix params ls
  assume "subghz_wizard protocol frequency raw_data key data te repeat = Inr (Some params)"
    and "subghz_lines params = Inr ls"
  then show "(''TE'' \<in> set (line_tags ls)) =
          (protocol \<noteq> Some ''RAW''
           \<and> (case protocol of
                None \<Rightarrow> False
              | Some p \<Rightarrow> (case map_of subghz_protocols p of None \<Rightarrow> False | Some info \<Rightarrow> needs_te info))
           \<and> (case te of None \<Rightarrow> False | Some t \<Rightarrow> t \<noteq> 0))"
    by (rule wizard_te)
qed

theorem te_line_gated_witness:
  "subghz_wizard (Some ''Holtek'') (Some 418000000) None ''00 00 52 AA AA BB CC DD EE FF'' []
       (Some 400) 1
     = Inr (Some \<lparr>kw_protocol = ''Holtek'', kw_frequency = 418000000, kw_preset = None,
          kw_raw_data = None, kw_bit_count = Some 40,
          kw_key = Some ''00 00 52 AA AA BB CC DD EE FF'', kw_te = None, kw_data = None,
          kw_repeat = Some 1\<rparr>)
   \<and> subghz_lines \<lparr>kw_protocol = ''Holtek'', kw_frequency = 418000000, kw_preset = None,
          kw_raw_data = None, kw_bit_count = Some 40,
          kw_key = Some ''00 00 52 AA AA BB CC DD EE FF'', kw_te = None, kw_data = None,
          kw_repeat = Some 1\<rparr>
     = Inr [''Filetype: Flipper SubGhz Key File'', ''Version: 1'', ''Frequency: 418000000'',
            ''Preset: FuriHalSubGhzPresetOok270Async'', ''Protocol: Holtek'', ''Bit: 40'',
            ''Key: 00 00 52 AA AA BB CC DD EE FF'']
   \<and> ''TE'' \<notin> set (line_tags
           [''Filetype: Flipper SubGhz Key File'', ''Version: 1'', ''Frequency: 418000000'',
            ''Preset: FuriHalSubGhzPresetOok270Async'', ''Protocol: Holtek'', ''Bit: 40'',
            ''Key: 00 00 52 AA AA BB CC DD EE FF''])
   \<and> subghz_lines \<lparr>kw_protocol = ''Princeton'', kw_frequency = 433920000, kw_preset = None,
          kw_raw_data = None, kw_bit_count = Some 24,
          kw_key = Some ''00 00 00 00 00 95 D5 D4'', kw_te = Some 400, kw_data = None,
          kw_repeat = None\<rparr>
     = Inr [''Filetype: Flipper SubGhz Key File'', ''Version: 1'', ''Frequency: 433920000'',
            ''Preset: FuriHalSubGhzPresetOok270Async'', ''Protocol: Princeton'', ''Bit: 24'',
            ''Key: 00 00 00 00 00 95 D5 D4'', ''TE: 400'']
   \<and> ''TE'' \<in> set (line_tags
           [''Filetype: Flipper SubGhz Key File'', ''Version: 1'', ''Frequency: 433920000'',
            ''Preset: FuriHalSubGhzPresetOok270Async'', ''Protocol: Princeton'', ''Bit: 24'',
            ''Key: 00 00 00 00 00 95 D5 D4'', ''TE: 400''])"
proof -
  let ?holtek = "\<lparr>kw_protocol = ''Holtek'', kw_frequency = 418000000, kw_preset = None,
          kw_raw_data = None, kw_bit_count = Some 40,
          kw_key = Some ''00 00 52 AA AA BB CC DD EE FF'', kw_te = None, kw_data = None,
          kw_repeat = Some 1\<rparr>"
  let ?holtek_lines = "[''Filetype: Flipper SubGhz Key File'', ''Version: 1'', ''Frequency: 418000000'',
            ''Preset: FuriHalSubGhzPresetOok270Async'', ''Protocol: Holtek'', ''Bit: 40'',
            ''Key: 00 00 52 AA AA BB CC DD EE FF'']"
  let ?princeton = "\<lparr>kw_protocol = ''Princeton'', kw_frequency = 433920000, kw_preset = None,
          kw_raw_data = None, kw_bit_count = Some 24,
          kw_key = Some ''00 00 00 00 00 95 D5 D4'', kw_te = Some 400, kw_data = None,
          kw_repeat = None\<rparr>"
  let ?princeton_lines = "[''Filetype: Flipper SubGhz Key File'', ''Version: 1'', ''Frequency: 433920000'',
            ''Preset: FuriHalSubGhzPresetOok270Async'', ''Protocol: Princeton'', ''Bit: 24'',
            ''Key: 00 00 00 00 00 95 D5 D4'', ''TE: 400'']"
  have w: "subghz_wizard (Some ''Holtek'') (Some 418000000) None ''00 00 52 AA AA BB CC DD EE FF'' []
       (Some 400) 1 = Inr (Some ?holtek)"
    by code_simp
  have l: "subghz_lines ?holtek = Inr ?holtek_lines"
    by code_simp
  have m: "subghz_lines ?princeton = Inr ?princeton_lines"
    by code_simp
  note wizard = conjunct2 [OF te_line_gated
      [of ?princeton "Some ''Holtek''" "Some 418000000" None "''00 00 52 AA AA BB CC DD EE FF''" "[]"
        "Some 400" 1]]
  note serialiser = conjunct1 [OF te_line_gated
      [of ?princeton "Some ''Holtek''" "Some 418000000" None "''00 00 52 AA AA BB CC DD EE FF''" "[]"
        "Some 400" 1]]
  from wizard w l have "(''TE'' \<in> set (line_tags ?holtek_lines)) =
      (Some ''Holtek'' \<noteq> Some ''RAW''
       \<and> (case Some ''Holtek'' of
            None \<Rightarrow> False
          | Some p \<Rightarrow> (case map_of subghz_protocols p of None \<Rightarrow> False | Some info \<Rightarrow> needs_te info))
       \<and> (case Some (400 :: int) of None \<Rightarrow> False | Some t \<Rightarrow> t \<noteq> 0))"
    by blast
  then have a: "''TE'' \<notin> set (line_tags ?holtek_lines)"
    by (simp add: subghz_protocols_def)
  from serialiser m have "(''TE'' \<in> set (line_tags ?princeton_lines)) =
      (kw_protocol ?princeton \<noteq> ''RAW'' \<and> (case kw_te ?princeton of None \<Rightarrow> False | Some t \<Rightarrow> t \<noteq> 0))"
    by blast
  then have b: "''TE'' \<in> set (line_tags ?princeton_lines)"
    by simp
  from w l a m b show ?thesis
    by blast
qed

section \<open>The empty key\<close>

text \<open>
  C10: an empty key answer is returned unchanged by the key normalisation, without any
  zero padding, and a file written with this key has no Key line, whether the key is
  passed to the serialiser directly or through the wizard's \<open>params\<close>.
\<close>

theorem empty_key_no_key_line:
  "normalize_key random_hex hex_chars [] = []
   \<and> (kw_key kw = Some (normalize_key random_hex hex_chars []) \<longrightarrow>
        (\<forall>ls. subghz_lines kw = Inr ls \<longrightarrow> ''Key'' \<notin> set (line_tags ls)))
   \<and> (\<forall>params ls. wizard_params protocol frequency (normalize_key random_hex hex_chars []) data te repeat = Inr params
          \<longrightarrow> subghz_lines params = Inr ls \<longrightarrow> ''Key'' \<notin> set (line_tags ls))"
proof -
  have empty: "normalize_key random_hex hex_chars [] = []"
    by (simp add: normalize_key_def py_lower_def)
  have no_key: "''Key'' \<notin> set (line_tags ls)" if "kw_key kw = Some []" "subghz_lines kw = Inr ls" for kw ls
  proof (cases "kw_protocol kw = ''RAW''")
    case True
    with that show ?thesis
      by (auto simp: subghz_lines_def line_tags_def split: option.splits)
  next
    case False
    with that show ?thesis
      using structured_tags [of kw] by (auto simp: header_tags_def truthy_str_def)
  qed
  have wiz: "kw_key params = Some key"
    if "wizard_params protocol frequency key data te repeat = Inr params" for key params
    using that by (auto simp: wizard_params_def split: option.splits)
  from empty no_key wiz show ?thesis
    by (metis (no_types))
qed

theorem empty_key_no_key_line_witness:
  "normalize_key ''0123456789ABCDEF0123'' 20 [] = []
   \<and> wizard_params ''Holtek'' 418000000 (normalize_key ''0123456789ABCDEF0123'' 20 []) [] None 1
       = Inr \<lparr>kw_protocol = ''Holtek'', kw_frequency = 418000000, kw_preset = None,
          kw_raw_data = None, kw_bit_count = Some 40, kw_key = Some [], kw_te = None,
          kw_data = None, kw_repeat = Some 1\<rparr>
   \<and> subghz_lines \<lparr>kw_protocol = ''Holtek'', kw_frequency = 418000000, kw_preset = None,
          kw_raw_data = None, kw_bit_count = Some 40, kw_key = Some [], kw_te = None,
          kw_data = None, kw_repeat = Some 1\<rparr>
       = Inr [''Filetype: Flipper SubGhz Key File'', ''Version: 1'', ''Frequency: 418000000'',
            ''Preset: FuriHalSubGhzPresetOok270Async'', ''Protocol: Holtek'', ''Bit: 40'']
   \<and> ''Key'' \<notin> set (line_tags
           [''Filetype: Flipper SubGhz Key File'', ''Version: 1'', ''Frequency: 418000000'',
            ''Preset: FuriHalSubGhzPresetOok270Async'', ''Protocol: Holtek'', ''Bit: 40''])"
proof -
  let ?kw = "\<lparr>kw_protocol = ''Holtek'', kw_frequency = 418000000, kw_preset = None,
          kw_raw_data = None, kw_bit_count = Some 40, kw_key = Some [], kw_te = None,
          kw_data = None, kw_repeat = Some 1\<rparr>"
  let ?ls = "[''Filetype: Flipper SubGhz Key File'', ''Version: 1'', ''Frequency: 418000000'',
            ''Preset: FuriHalSubGhzPresetOok270Async'', ''Protocol: Holtek'', ''Bit: 40'']"
  note t = empty_key_no_key_line [of "''0123456789ABCDEF0123''" 20 ?kw "''Holtek''" 418000000 "[]" None 1]
  have e: "normalize_key ''0123456789ABCDEF0123'' 20 [] = []"
    using t by blast
  have w: "wizard_params ''Holtek'' 418000000 (normalize_key ''0123456789ABCDEF0123'' 20 []) [] None 1 = Inr ?kw"
    by (simp add: e wizard_params_def subghz_protocols_def)
  have l: "subghz_lines ?kw = Inr ?ls"
    by code_simp
  have "kw_key ?kw = Some (normalize_key ''0123456789ABCDEF0123'' 20 [])"
    by (simp add: e)
  with t l have "''Key'' \<notin> set (line_tags ?ls)"
    by blast
  with e w l show ?thesis
    by blast
qed


section \<open>Writing and reading timing sequences\<close>

lemma digits_nonempty: "digits b n \<noteq> []"
  by (subst digits.simps) simp

lemma digit_char_decimal: "digit_char d \<in> set ''0123456789''"
  by (simp add: digit_char_def)

lemma digits_decimal: "c \<in> set (digits b n) \<Longrightarrow> c \<in> set ''0123456789''"
proof (induction b n rule: digits.induct)
  case (1 b n)
  show ?case
  proof (cases "b < 2 \<or> n < b")
    case True
    with "1.prems" have "c = digit_char n"
      by (subst (asm) digits.simps) simp
    then show ?thesis
      using digit_char_decimal by blast
  next
    case False
    with "1.prems" have "c \<in> set (digits b (n div b)) \<or> c = digit_char (n mod b)"
      by (subst (asm) digits.simps) auto
    with False "1.IH" show ?thesis
      using digit_char_decimal by blast
  qed
qed

lemma decimal_facts:
  assumes "c \<in> set ''0123456789''"
  shows "\<not> py_isspace c" and "\<not> int_isspace c" and "c \<noteq> CHR ''_''" and "c \<noteq> CHR ''-''"
    and "c \<noteq> CHR ''+''" and "is_digit 10 c"
  using assms by (auto simp: py_isspace_def int_isspace_def is_digit_def digit_value_def)

lemma digit_value_digit_char:
  assumes "0 \<le> d" and "d < 10"
  shows "digit_value (digit_char d) = Some (nat d)"
proof -
  from assms have "d = 0 \<or> d = 1 \<or> d = 2 \<or> d = 3 \<or> d = 4 \<or> d = 5 \<or> d = 6 \<or> d = 7 \<or> d = 8 \<or> d = 9"
    by arith
  then show ?thesis
    by (auto simp: digit_char_def digit_value_def)
qed

lemma digits_value_snoc:
  "digits_value b (ds @ [c]) =
     digits_value b ds * int b + (case digit_value c of None \<Rightarrow> 0 | Some d \<Rightarrow> int d)"
  by (simp add: digits_value_def)

lemma digits_value_single:
  "digits_value b [c] = (case digit_value c of None \<Rightarrow> 0 | Some d \<Rightarrow> int d)"
  by (simp add: digits_value_def)

lemma digits_value_digits: "b = 10 \<Longrightarrow> 0 \<le> n \<Longrightarrow> digits_value 10 (digits b n) = n"
proof (induction b n rule: digits.induct)
  case (1 b n)
  from "1.prems" have b: "b = 10"
    by simp
  show ?case
  proof (cases "n < 10")
    case True
    have "digits 10 n = [digit_char n]"
      using True by (subst digits.simps) simp
    with True "1.prems" show ?thesis
      by (simp add: b digits_value_single digit_value_digit_char)
  next
    case False
    have unfold: "digits 10 n = digits 10 (n div 10) @ [digit_char (n mod 10)]"
      using False by (subst digits.simps) simp
    from False "1.prems" have "digits_value 10 (digits 10 (n div 10)) = n div 10"
      using "1.IH" by (simp add: b)
    moreover have "digit_value (digit_char (n mod 10)) = Some (nat (n mod 10))"
      by (simp add: digit_value_digit_char)
    ultimately show ?thesis
      using "1.prems" by (simp add: b unfold digits_value_snoc)
  qed
qed

lemma underscores_ok_plain: "CHR ''_'' \<notin> set s \<Longrightarrow> underscores_ok s"
  by (induction s rule: underscores_ok.induct) auto

lemma py_int_plain:
  assumes "s \<noteq> []" and "\<forall>c\<in>set s. c \<in> set ''0123456789''"
  shows "py_int 10 s = Some (digits_value 10 s)"
    and "py_int 10 (CHR ''-'' # s) = Some (- digits_value 10 s)"
proof -
  from assms obtain c cs where s: "s = c # cs" and c: "c \<in> set ''0123456789''"
    by (cases s) auto
  have t: "take (Suc 0) s \<noteq> ''-''" "take (Suc 0) s \<noteq> ''+''" "take (Suc 0) s \<noteq> ''_''"
    using decimal_facts(3-5) [OF c] by (simp_all add: s)
  have first: "dropWhile int_isspace s = s"
    using decimal_facts(2) [OF c] by (simp add: s)
  have body: "takeWhile (\<lambda>x. is_digit 10 x \<or> x = CHR ''_'') s = s"
    using assms(2) decimal_facts(6) by (subst takeWhile_eq_all_conv) blast
  have rest: "dropWhile (\<lambda>x. is_digit 10 x \<or> x = CHR ''_'') s = []"
    using assms(2) decimal_facts(6) by (subst dropWhile_eq_Nil_conv) blast
  have plain: "filter (\<lambda>x. x \<noteq> CHR ''_'') s = s"
    using assms(2) decimal_facts(3) by (subst filter_id_conv) blast
  have ok: "underscores_ok s"
    using assms(2) decimal_facts(3) by (intro underscores_ok_plain) blast
  show "py_int 10 s = Some (digits_value 10 s)"
    by (simp add: py_int_def skip_prefix_def Let_def t first body rest plain ok assms(1))
  have minus: "dropWhile int_isspace (CHR ''-'' # s) = CHR ''-'' # s"
    by (simp add: int_isspace_def)
  show "py_int 10 (CHR ''-'' # s) = Some (- digits_value 10 s)"
    unfolding py_int_def minus
    by (simp add: skip_prefix_def Let_def t body rest plain ok assms(1))
qed

lemma py_int_str: "py_int 10 (py_str i) = Some i"
proof -
  have "\<forall>c\<in>set (digits 10 n). c \<in> set ''0123456789''" for n
    using digits_decimal by blast
  then have "py_int 10 (digits 10 n) = Some (digits_value 10 (digits 10 n))"
    and "py_int 10 (CHR ''-'' # digits 10 n) = Some (- digits_value 10 (digits 10 n))" for n
    using py_int_plain [OF digits_nonempty] by blast+
  then show ?thesis
    by (simp add: py_str_def digits_value_digits)
qed

lemma parse_all_str: "parse_all (map py_str xs) = Some xs"
  by (induction xs) (simp_all add: py_int_str)

lemma py_str_nonempty: "py_str i \<noteq> []"
  by (simp add: py_str_def digits_nonempty)

lemma py_str_no_space: "c \<in> set (py_str i) \<Longrightarrow> \<not> py_isspace c"
  using digits_decimal decimal_facts(1)
  by (auto simp: py_str_def py_isspace_def split: if_splits)

lemma split_runs_token:
  "\<forall>c\<in>set t. \<not> py_isspace c \<Longrightarrow> split_runs cur (t @ rest) = split_runs (cur @ t) rest"
  by (induction t arbitrary: cur) simp_all

lemma split_runs_join:
  "\<forall>t\<in>set ts. t \<noteq> [] \<and> (\<forall>c\<in>set t. \<not> py_isspace c) \<Longrightarrow>
   split_runs [] (py_join '' '' ts) = ts"
proof (induction "'' ''" ts rule: py_join.induct)
  case 1
  then show ?case by simp
next
  case (2 x)
  then have "split_runs [] (x @ []) = split_runs x []"
    using split_runs_token [of x "[]" "[]"] by simp
  with 2 show ?case by simp
next
  case (3 x y ys)
  then have "split_runs [] (x @ '' '' @ py_join '' '' (y # ys)) = split_runs x ('' '' @ py_join '' '' (y # ys))"
    using split_runs_token [of x "[]"] by simp
  with 3 show ?case
    by (simp add: py_isspace_def)
qed





lemma parse_ints_render: "parse_ints (render_timing xs) = Some xs"
proof -
  have "\<forall>t\<in>set (map py_str xs). t \<noteq> [] \<and> (\<forall>c\<in>set t. \<not> py_isspace c)"
    using py_str_nonempty py_str_no_space by auto
  then have "py_split (render_timing xs) = map py_str xs"
    by (simp add: py_split_def render_timing_def split_runs_join)
  then show ?thesis
    by (simp add: parse_ints_def parse_all_str)
qed



section \<open>The timing analyser\<close>

lemma py_min_Min: "vals \<noteq> [] \<Longrightarrow> py_min vals = Inr (Min (set vals))"
proof (cases vals)
  case (Cons y ys)
  then show ?thesis
    using Min.set_eq_fold [of y ys] by (simp add: py_min_def)
qed simp

lemma py_max_Max: "vals \<noteq> [] \<Longrightarrow> py_max vals = Inr (Max (set vals))"
proof (cases vals)
  case (Cons y ys)
  then show ?thesis
    using Max.set_eq_fold [of y ys] by (simp add: py_max_def)
qed simp

lemma min_max_avg_total:
  "vals \<noteq> [] \<Longrightarrow>
   min_max_avg vals = Inr (Min (set vals), Max (set vals), sum_list vals div int (length vals))"
  by (simp add: min_max_avg_def py_min_Min py_max_Max py_floordiv_def)

lemma analyze_values_total:
  "analyze_values timing =
     Inr \<lparr>total_values = length timing,
          positive_values = length (filter (\<lambda>x. 0 < x) timing),
          negative_values = length (filter (\<lambda>x. x < 0) timing),
          on_times =
            (if filter (\<lambda>x. 0 < x) timing = [] then None
             else Some (Min (set (filter (\<lambda>x. 0 < x) timing)),
                        Max (set (filter (\<lambda>x. 0 < x) timing)),
                        sum_list (filter (\<lambda>x. 0 < x) timing)
                          div int (length (filter (\<lambda>x. 0 < x) timing)))),
          off_times =
            (if filter (\<lambda>x. x < 0) timing = [] then None
             else Some (Min (set (map abs (filter (\<lambda>x. x < 0) timing))),
                        Max (set (map abs (filter (\<lambda>x. x < 0) timing))),
                        sum_list (map abs (filter (\<lambda>x. x < 0) timing))
                          div int (length (filter (\<lambda>x. x < 0) timing))))\<rparr>"
proof -
  let ?pos = "filter (\<lambda>x. 0 < x) timing" and ?neg = "map abs (filter (\<lambda>x. x < 0) timing)"
  have pos: "min_max_avg ?pos = Inr (Min (set ?pos), Max (set ?pos), sum_list ?pos div int (length ?pos))"
    if "?pos \<noteq> []"
    using that by (rule min_max_avg_total)
  have neg: "min_max_avg ?neg = Inr (Min (set ?neg), Max (set ?neg), sum_list ?neg div int (length ?neg))"
    if "?neg \<noteq> []"
    using that by (rule min_max_avg_total)
  show ?thesis
  proof (cases "?pos = []")
    case True
    show ?thesis
    proof (cases "?neg = []")
      case True
      with \<open>?pos = []\<close> show ?thesis
        by (simp add: analyze_values_def Let_def)
    next
      case False
      with \<open>?pos = []\<close> neg show ?thesis
        by (simp add: analyze_values_def Let_def)
    qed
  next
    case False
    show ?thesis
    proof (cases "?neg = []")
      case True
      with \<open>?pos \<noteq> []\<close> pos show ?thesis
        by (simp add: analyze_values_def Let_def)
    next
      case False
      with \<open>?pos \<noteq> []\<close> pos neg show ?thesis
        by (simp add: analyze_values_def Let_def)
    qed
  qed
qed

text \<open>
  C8: for every sequence of integers the analysis returns a report and raises nothing;
  this holds for every text that parses to the sequence, in particular for the sequence
  written out with spaces. Zero entries count on neither side. The ON numbers are present
  exactly when some entry is positive, the OFF numbers, taken over absolute values,
  exactly when some entry is negative, and an absent side is left out of the report.
\<close>

theorem analyzer_total:
  "\<exists>r. analyze_values timing = Inr r
      \<and> analyze_timing (render_timing timing) = Inr (Report r)
      \<and> (\<forall>timing_str. parse_ints timing_str = Some timing \<longrightarrow>
            analyze_timing timing_str = Inr (Report r))
      \<and> total_values r = length timing
      \<and> positive_values r = length (filter (\<lambda>x. 0 < x) timing)
      \<and> negative_values r = length (filter (\<lambda>x. x < 0) timing)
      \<and> on_times r =
          (if filter (\<lambda>x. 0 < x) timing = [] then None
           else Some (Min (set (filter (\<lambda>x. 0 < x) timing)),
                      Max (set (filter (\<lambda>x. 0 < x) timing)),
                      sum_list (filter (\<lambda>x. 0 < x) timing)
                        div int (length (filter (\<lambda>x. 0 < x) timing))))
      \<and> off_times r =
          (if filter (\<lambda>x. x < 0) timing = [] then None
           else Some (Min (set (map abs (filter (\<lambda>x. x < 0) timing))),
                      Max (set (map abs (filter (\<lambda>x. x < 0) timing))),
                      sum_list (map abs (filter (\<lambda>x. x < 0) timing))
                        div int (length (filter (\<lambda>x. x < 0) timing))))"
proof -
  obtain r where r: "analyze_values timing = Inr r"
    using analyze_values_total by blast
  have "analyze_timing timing_str = Inr (Report r)" if "parse_ints timing_str = Some timing"
    for timing_str
    using that r by (simp add: analyze_timing_def)
  moreover from this have "analyze_timing (render_timing timing) = Inr (Report r)"
    using parse_ints_render by blast
  moreover have "r = \<lparr>total_values = length timing,
          positive_values = length (filter (\<lambda>x. 0 < x) timing),
          negative_values = length (filter (\<lambda>x. x < 0) timing),
          on_times =
            (if filter (\<lambda>x. 0 < x) timing = [] then None
             else Some (Min (set (filter (\<lambda>x. 0 < x) timing)),
                        Max (set (filter (\<lambda>x. 0 < x) timing)),
                        sum_list (filter (\<lambda>x. 0 < x) timing)
                          div int (length (filter (\<lambda>x. 0 < x) timing)))),
          off_times =
            (if filter (\<lambda>x. x < 0) timing = [] then None
             else Some (Min (set (map abs (filter (\<lambda>x. x < 0) timing))),
                        Max (set (map abs (filter (\<lambda>x. x < 0) timing))),
                        sum_list (map abs (filter (\<lambda>x. x < 0) timing))
                          div int (length (filter (\<lambda>x. x < 0) timing))))\<rparr>"
    using r analyze_values_total [of timing] by simp
  ultimately show ?thesis
    using r by (intro exI [of _ r]) simp
qed

theorem analyzer_total_witness:
  "parse_ints ''500 -500 1000 -500'' = Some [500, - 500, 1000, - 500]
   \<and> (\<exists>r. analyze_timing ''500 -500 1000 -500'' = Inr (Report r)
        \<and> positive_values r = 2 \<and> negative_values r = 2
        \<and> on_times r = Some (500, 1000, 750) \<and> off_times r = Some (500, 500, 500))
   \<and> parse_ints ''0 7 5'' = Some [0, 7, 5]
   \<and> (\<exists>r. analyze_timing ''0 7 5'' = Inr (Report r)
        \<and> total_values r = 3 \<and> positive_values r = 2 \<and> negative_values r = 0
        \<and> on_times r = Some (5, 7, 6) \<and> off_times r = None)"
proof -
  have p1: "parse_ints ''500 -500 1000 -500'' = Some [500, - 500, 1000, - 500]"
    by code_simp
  have p2: "parse_ints ''0 7 5'' = Some [0, 7, 5]"
    by code_simp
  from analyzer_total [of "[500, - 500, 1000, - 500]"] p1
  have a: "\<exists>r. analyze_timing ''500 -500 1000 -500'' = Inr (Report r)
        \<and> positive_values r = 2 \<and> negative_values r = 2
        \<and> on_times r = Some (500, 1000, 750) \<and> off_times r = Some (500, 500, 500)"
    by (elim exE conjE, intro exI conjI) simp_all
  from analyzer_total [of "[0, 7, 5]"] p2
  have b: "\<exists>r. analyze_timing ''0 7 5'' = Inr (Report r)
        \<and> total_values r = 3 \<and> positive_values r = 2 \<and> negative_values r = 0
        \<and> on_times r = Some (5, 7, 6) \<and> off_times r = None"
    by (elim exE conjE, intro exI conjI) simp_all
  from p1 a p2 b show ?thesis
    by blast
qed

section \<open>The NEC-like encoder\<close>

lemma nec_loop_concat:
  "nec_loop binary pattern =
     pattern @ concat (map (\<lambda>b. if b = CHR ''1'' then [560, - 1690] else [560, - 560]) binary)"
  by (induction binary arbitrary: pattern) simp_all

lemma nec_loop_length: "length (nec_loop binary pattern) = length pattern + 2 * length binary"
  by (induction binary arbitrary: pattern) simp_all

lemma zfill_length: "length (py_zfill width s) = max width (length s)"
  by (auto simp: py_zfill_def split: list.splits)

lemma zfill_digits: "py_zfill width (digits b n) = replicate (width - length (digits b n)) (CHR ''0'') @ digits b n"
proof -
  obtain c cs where s: "digits b n = c # cs"
    using digits_nonempty [of b n] by (cases "digits b n") auto
  then have "c \<in> set ''0123456789''"
    using digits_decimal [of c b n] by simp
  then have "c \<noteq> CHR ''+''" "c \<noteq> CHR ''-''"
    using decimal_facts by blast+
  then show ?thesis
    by (simp add: py_zfill_def s)
qed

lemma nec_like_parsed:
  assumes "py_int 16 (if take 2 data = ''0x'' then drop 2 data else data) = Some v"
  shows "generate_nec_like data = nec_loop (py_zfill 32 (drop 2 (py_bin v))) [9000, - 4500] @ [560]"
  using assms by (simp add: generate_nec_like_def Let_def)

lemma nec_like_rejected:
  assumes "py_int 16 (if take 2 data = ''0x'' then drop 2 data else data) = None"
  shows "generate_nec_like data = []"
  using assms by (simp add: generate_nec_like_def Let_def)

lemma digits_long: "0 \<le> n \<Longrightarrow> 2 ^ k \<le> n \<Longrightarrow> k < length (digits 2 n)"
proof (induction k arbitrary: n)
  case 0
  then show ?case
    using digits_nonempty [of 2 n] by (cases "digits 2 n") simp_all
next
  case (Suc k)
  have "(2::int) \<le> 2 ^ Suc k"
    by simp
  with Suc.prems have big: "2 \<le> n"
    by linarith
  then have unfold: "digits 2 n = digits 2 (n div 2) @ [digit_char (n mod 2)]"
    by (subst digits.simps) simp
  from Suc.prems have "2 ^ k \<le> n div 2"
    by simp
  with Suc.IH [of "n div 2"] big have "k < length (digits 2 (n div 2))"
    by simp
  then show ?case
    by (simp add: unfold)
qed

lemma bin_drop: "0 \<le> v \<Longrightarrow> drop 2 (py_bin v) = digits 2 v"
  by (simp add: py_bin_def)

text \<open>
  C4, as the claim states it, fails: the input \<open>100000000\<close> is the number \<open>2^32\<close>, which
  does not fit in 32 bits, and the encoder returns a sequence for it, of 69 elements.
\<close>

theorem nec_like_counterexample:
  "py_int 16 ''100000000'' = Some (2 ^ 32)
   \<and> generate_nec_like ''100000000'' \<noteq> []
   \<and> length (generate_nec_like ''100000000'') = 69"
  by code_simp

text \<open>
  C4, amended: the NEC-like encoder gives up, returning the empty sequence after its
  message, exactly when the input, with a leading lower-case \<open>0x\<close> removed, is not
  accepted by the base 16 integer parser. For every accepted input it returns a sequence
  of three elements and two more for each character of the zero-filled binary text, at
  least 67 in all. The value is not checked against 32 bits: a value of \<open>2^32\<close> or more
  gives a sequence of more than 67 elements.
\<close>

theorem nec_like_no_range_check:
  "(generate_nec_like data = [])
     = (py_int 16 (if take 2 data = ''0x'' then drop 2 data else data) = None)
   \<and> (\<forall>v. py_int 16 (if take 2 data = ''0x'' then drop 2 data else data) = Some v \<longrightarrow>
         length (generate_nec_like data) = 3 + 2 * max 32 (length (drop 2 (py_bin v)))
         \<and> 67 \<le> length (generate_nec_like data)
         \<and> (2 ^ 32 \<le> v \<longrightarrow> 67 < length (generate_nec_like data)))"
proof -
  let ?parsed = "py_int 16 (if take 2 data = ''0x'' then drop 2 data else data)"
  have len: "length (generate_nec_like data) = 3 + 2 * max 32 (length (drop 2 (py_bin v)))"
    if "?parsed = Some v" for v
    using nec_like_parsed [OF that] by (simp add: nec_loop_length zfill_length)
  have long: "67 < length (generate_nec_like data)" if "?parsed = Some v" "2 ^ 32 \<le> v" for v
  proof -
    from that(2) have "0 \<le> v"
      by simp
    with that(2) have "32 < length (digits 2 v)"
      using digits_long [of v 32] by simp
    with \<open>0 \<le> v\<close> have "32 < length (drop 2 (py_bin v))"
      by (simp only: bin_drop)
    with len [OF that(1)] show ?thesis
      by simp
  qed
  have empty: "(generate_nec_like data = []) = (?parsed = None)"
  proof (cases ?parsed)
    case None
    then show ?thesis
      using nec_like_rejected by simp
  next
    case (Some v)
    with len [of v] show ?thesis
      by auto
  qed
  from len long empty show ?thesis
    by auto
qed

theorem nec_like_no_range_check_witness:
  "py_int 16 ''ZZ'' = None \<and> generate_nec_like ''0xZZ'' = []
   \<and> py_int 16 ''1FFFFFFFF'' = Some 8589934591 \<and> (2 :: int) ^ 32 \<le> 8589934591
   \<and> 67 < length (generate_nec_like ''1FFFFFFFF'')"
proof -
  have a: "py_int 16 (if take 2 ''0xZZ'' = ''0x'' then drop 2 ''0xZZ'' else ''0xZZ'') = None"
    by code_simp
  have b: "py_int 16 (if take 2 ''1FFFFFFFF'' = ''0x'' then drop 2 ''1FFFFFFFF'' else ''1FFFFFFFF'')
      = Some 8589934591"
    by code_simp
  have c: "(2 :: int) ^ 32 \<le> 8589934591"
    by simp
  from nec_like_no_range_check [of "''0xZZ''"] a have "generate_nec_like ''0xZZ'' = []"
    by blast
  moreover from nec_like_no_range_check [of "''1FFFFFFFF''"] b c
  have "67 < length (generate_nec_like ''1FFFFFFFF'')"
    by blast
  moreover have "py_int 16 ''ZZ'' = None" "py_int 16 ''1FFFFFFFF'' = Some 8589934591"
    by code_simp+
  ultimately show ?thesis
    using c by blast
qed

lemma msb_first_bits_Suc:
  assumes "0 \<le> n"
  shows "msb_first_bits (Suc k) n = msb_first_bits k (n div 2) @ [n mod 2 = 1]"
proof -
  have shift: "(n div (2 * 2 ^ i)) mod 2 = (n div 2 div 2 ^ i) mod 2" for i
    by (simp add: zdiv_zmult2_eq)
  have "[0..<Suc k] = 0 # map Suc [0..<k]"
    by (simp add: upt_conv_Cons map_Suc_upt del: upt_Suc)
  then have "msb_first_bits (Suc k) n =
      map (\<lambda>i. (n div 2 ^ Suc i) mod 2 = 1) (rev [0..<k]) @ [(n div 2 ^ 0) mod 2 = 1]"
    unfolding msb_first_bits_def by (simp add: rev_map comp_def del: upt_Suc)
  then show ?thesis
    unfolding msb_first_bits_def by (simp add: shift del: upt_Suc)
qed

lemma digits_msb:
  "0 < k \<Longrightarrow> 0 \<le> n \<Longrightarrow> n < 2 ^ k \<Longrightarrow>
   length (digits 2 n) \<le> k
   \<and> replicate (k - length (digits 2 n)) (CHR ''0'') @ digits 2 n
       = map (\<lambda>b. if b then CHR ''1'' else CHR ''0'') (msb_first_bits k n)"
proof (induction k arbitrary: n)
  case 0
  then show ?case by simp
next
  case (Suc k)
  have last_digit: "digit_char (n mod 2) = (if n mod 2 = 1 then CHR ''1'' else CHR ''0'')"
    by (cases "n mod 2 = 1") (auto simp: digit_char_def)
  show ?case
  proof (cases "n < 2")
    case True
    with Suc.prems have n: "n = 0 \<or> n = 1"
      by arith
    have single: "digits 2 n = [digit_char n]"
      using True by (subst digits.simps) simp
    have zeros: "map (\<lambda>b. if b then CHR ''1'' else CHR ''0'') (msb_first_bits j 0) = replicate j (CHR ''0'')" for j
      by (simp add: msb_first_bits_def comp_def map_replicate_const del: upt_Suc)
    from n have "n div 2 = 0" and "digit_char n = (if n mod 2 = 1 then CHR ''1'' else CHR ''0'')"
      by (auto simp: digit_char_def)
    with Suc.prems show ?thesis
      by (simp add: single msb_first_bits_Suc zeros del: replicate_Suc)
  next
    case False
    then have unfold: "digits 2 n = digits 2 (n div 2) @ [digit_char (n mod 2)]"
      by (subst digits.simps) simp
    from False Suc.prems have k: "0 < k"
      by (cases k) simp_all
    from Suc.prems have "0 \<le> n div 2" "n div 2 < 2 ^ k"
      by simp_all
    with Suc.IH [of "n div 2"] k
    have ih: "length (digits 2 (n div 2)) \<le> k"
      "replicate (k - length (digits 2 (n div 2))) (CHR ''0'') @ digits 2 (n div 2)
         = map (\<lambda>b. if b then CHR ''1'' else CHR ''0'') (msb_first_bits k (n div 2))"
      by simp_all
    from Suc.prems ih show ?thesis
      by (simp add: unfold msb_first_bits_Suc last_digit)
  qed
qed

text \<open>
  C5: for an input that parses to a number from 0 up to \<open>2^32 - 1\<close>, the NEC-like encoder
  returns 67 elements: the leader 9000, -4500, then for each of the 32 bits, most
  significant first, the pair 560, -1690 for a one and 560, -560 for a zero, and a final
  560 on its own.
\<close>

theorem nec_like_frame:
  assumes "py_int 16 (if take 2 data = ''0x'' then drop 2 data else data) = Some v"
    and "0 \<le> v" and "v < 2 ^ 32"
  shows "generate_nec_like data =
           [9000, - 4500]
           @ concat (map (\<lambda>b. if b then [560, - 1690] else [560, - 560]) (msb_first_bits 32 v))
           @ [560]
         \<and> length (generate_nec_like data) = 67"
proof -
  from assms(2) have bin: "drop 2 (py_bin v) = digits 2 v"
    by (rule bin_drop)
  from assms(2,3) have "py_zfill 32 (digits 2 v)
      = map (\<lambda>b. if b then CHR ''1'' else CHR ''0'') (msb_first_bits 32 v)"
    using digits_msb [of 32 v] by (simp add: zfill_digits)
  then have "generate_nec_like data =
      nec_loop (map (\<lambda>b. if b then CHR ''1'' else CHR ''0'') (msb_first_bits 32 v)) [9000, - 4500] @ [560]"
    using nec_like_parsed [OF assms(1)] by (simp add: bin)
  moreover have "(\<lambda>b. if (if b then CHR ''1'' else CHR ''0'') = CHR ''1'' then [560, - 1690] else [560, - 560 :: int])
      = (\<lambda>b. if b then [560, - 1690] else [560, - 560])"
    by auto
  ultimately have frame: "generate_nec_like data =
           [9000, - 4500]
           @ concat (map (\<lambda>b. if b then [560, - 1690] else [560, - 560]) (msb_first_bits 32 v))
           @ [560]"
    by (simp add: nec_loop_concat comp_def)
  have "length (msb_first_bits 32 v) = 32"
    by (simp add: msb_first_bits_def)
  then have "length (generate_nec_like data) = 67"
    using nec_like_parsed [OF assms(1)] digits_msb [of 32 v] assms(2,3)
    by (simp add: nec_loop_length zfill_length bin)
  with frame show ?thesis
    by blast
qed

theorem nec_like_frame_witness:
  "py_int 16 ''12345678'' = Some 305419896 \<and> (0 :: int) \<le> 305419896 \<and> (305419896 :: int) < 2 ^ 32
   \<and> length (generate_nec_like ''0x12345678'') = 67
   \<and> take 2 (generate_nec_like ''0x12345678'') = [9000, - 4500]
   \<and> last (generate_nec_like ''0x12345678'') = 560"
proof -
  have p: "py_int 16 (if take 2 ''0x12345678'' = ''0x'' then drop 2 ''0x12345678'' else ''0x12345678'')
      = Some 305419896"
    by code_simp
  have r: "(0 :: int) \<le> 305419896" "(305419896 :: int) < 2 ^ 32"
    by simp_all
  note t = nec_like_frame [OF p r]
  from t have "length (generate_nec_like ''0x12345678'') = 67"
    by blast
  moreover from t have "take 2 (generate_nec_like ''0x12345678'') = [9000, - 4500]"
    by simp
  moreover from t have "last (generate_nec_like ''0x12345678'') = 560"
    by simp
  moreover have "py_int 16 ''12345678'' = Some 305419896"
    by code_simp
  ultimately show ?thesis
    using r by blast
qed

section \<open>The key normalisation\<close>










end
